theory Spec2Isabelle
  imports Complex_Main "HOL-Library.AList" "HOL-Library.Multiset"
begin

section \<open>JavaScript numbers\<close>

text \<open>
  Every numeric field of the program has the TypeScript type \<open>number\<close>. The model keeps
  the three special values of that type apart from the finite ones, because the claims
  about division by zero are claims about \<open>NaN\<close> and \<open>Infinity\<close>. Finite values are exact
  rationals: the rounding of IEEE doubles, overflow to infinity and the sign of zero are
  outside the model.
\<close>

datatype jsnum = Fin rat | PInf | NInf | NaN

instantiation jsnum :: comm_monoid_add
begin

definition zero_jsnum :: jsnum where
  "zero_jsnum = Fin 0"

fun plus_jsnum :: "jsnum \<Rightarrow> jsnum \<Rightarrow> jsnum" where
  "plus_jsnum NaN _ = NaN"
| "plus_jsnum _ NaN = NaN"
| "plus_jsnum (Fin a) (Fin b) = Fin (a + b)"
| "plus_jsnum PInf NInf = NaN"
| "plus_jsnum NInf PInf = NaN"
| "plus_jsnum PInf _ = PInf"
| "plus_jsnum _ PInf = PInf"
| "plus_jsnum NInf _ = NInf"
| "plus_jsnum _ NInf = NInf"

instance
proof
  fix u v w :: jsnum
  show "u + v = v + u"
    by (cases u; cases v; simp)
  show "u + v + w = u + (v + w)"
    by (cases u; cases v; cases w; simp)
  show "0 + u = u"
    by (cases u; simp add: zero_jsnum_def)
qed

end

fun jneg :: "jsnum \<Rightarrow> jsnum" where
  "jneg (Fin a) = Fin (- a)"
| "jneg PInf = NInf"
| "jneg NInf = PInf"
| "jneg NaN = NaN"

definition jsub :: "jsnum \<Rightarrow> jsnum \<Rightarrow> jsnum" where
  "jsub a b = a + jneg b"

text \<open>The sign of a number that is not \<open>NaN\<close>, used by multiplication below.\<close>

fun jsgn :: "jsnum \<Rightarrow> int" where
  "jsgn (Fin a) = (if a < 0 then - 1 else if a = 0 then 0 else 1)"
| "jsgn PInf = 1"
| "jsgn NInf = - 1"
| "jsgn NaN = 0"

fun jmul :: "jsnum \<Rightarrow> jsnum \<Rightarrow> jsnum" where
  "jmul NaN _ = NaN"
| "jmul _ NaN = NaN"
| "jmul (Fin a) (Fin b) = Fin (a * b)"
| "jmul x y =
     (if jsgn x * jsgn y = 0 then NaN else if 0 < jsgn x * jsgn y then PInf else NInf)"

text \<open>
  Division as the \<open>/\<close> operator of the language computes it: a non-zero finite number
  over zero is an infinity, zero over zero is \<open>NaN\<close>, and nothing raises.
\<close>

fun jdiv :: "jsnum \<Rightarrow> jsnum \<Rightarrow> jsnum" where
  "jdiv NaN _ = NaN"
| "jdiv _ NaN = NaN"
| "jdiv (Fin a) (Fin b) =
     (if b \<noteq> 0 then Fin (a / b) else if a = 0 then NaN else if 0 < a then PInf else NInf)"
| "jdiv (Fin a) _ = Fin 0"
| "jdiv x (Fin b) = (if 0 \<le> b then x else jneg x)"
| "jdiv _ _ = NaN"

text \<open>The comparisons \<open>>\<close> and \<open><=\<close>: false as soon as one side is \<open>NaN\<close>.\<close>

fun jless :: "jsnum \<Rightarrow> jsnum \<Rightarrow> bool" where
  "jless NaN _ = False"
| "jless _ NaN = False"
| "jless (Fin a) (Fin b) = (a < b)"
| "jless NInf NInf = False"
| "jless NInf _ = True"
| "jless _ NInf = False"
| "jless PInf _ = False"
| "jless _ PInf = True"

definition jgt :: "jsnum \<Rightarrow> jsnum \<Rightarrow> bool" where
  "jgt a b = jless b a"

fun jle :: "jsnum \<Rightarrow> jsnum \<Rightarrow> bool" where
  "jle NaN _ = False"
| "jle _ NaN = False"
| "jle a b = (a = b \<or> jless a b)"

text \<open>\<open>Math.round\<close> rounds halves towards plus infinity; \<open>Math.min\<close> propagates \<open>NaN\<close>.\<close>

fun Math_round :: "jsnum \<Rightarrow> jsnum" where
  "Math_round (Fin a) = Fin (of_int \<lfloor>a + 1 / 2\<rfloor>)"
| "Math_round x = x"

definition Math_min :: "jsnum \<Rightarrow> jsnum \<Rightarrow> jsnum" where
  "Math_min a b = (if a = NaN \<or> b = NaN then NaN else if jless b a then b else a)"

text \<open>
  \<open>x || 0\<close> on an optional numeric field: the field is replaced by \<open>0\<close> when it is
  absent, and also when it is \<open>0\<close> or \<open>NaN\<close>, the two falsy numbers.
\<close>

definition or_zero :: "jsnum option \<Rightarrow> jsnum" where
  "or_zero x = (case x of None \<Rightarrow> 0 | Some v \<Rightarrow> if v = Fin 0 \<or> v = NaN then 0 else v)"

section \<open>Printing numbers\<close>

fun digits :: "nat \<Rightarrow> string" where
  "digits n =
     (if n < 10 then [''0123456789'' ! n]
      else digits (n div 10) @ [''0123456789'' ! (n mod 10)])"

declare digits.simps [simp del]

text \<open>
  \<open>x.toFixed(d)\<close>: the sign, the integer part and \<open>d\<close> fraction digits of the nearest
  multiple of \<open>10^-d\<close>, the larger one on a tie. Magnitudes of \<open>10^21\<close> and more, which the
  language prints in exponent notation, are printed in plain digits here.
\<close>

definition toFixed :: "nat \<Rightarrow> jsnum \<Rightarrow> string" where
  "toFixed d x =
     (case x of
        NaN \<Rightarrow> ''NaN''
      | PInf \<Rightarrow> ''Infinity''
      | NInf \<Rightarrow> ''-Infinity''
      | Fin q \<Rightarrow>
          (let n = nat \<lfloor>\<bar>q\<bar> * 10 ^ d + 1 / 2\<rfloor>;
               m = replicate (Suc d - length (digits n)) (CHR ''0'') @ digits n;
               k = length m - d
           in (if q < 0 then ''-'' else '''') @ take k m @ (if d = 0 then '''' else ''.'' @ drop k m)))"


section \<open>Data model\<close>

text \<open>
  The source file holds two variants of the application, one after the other. The model
  follows the first one, whose records carry trade kills and the five clutch brackets and
  whose profile page computes the playstyle scores. Role classification and the team
  balancer are the same in both variants; the duel reconciliation of the second variant
  differs only in that its history entries carry no team names.
\<close>

text \<open>
  A steam id arrives as \<open>number | string\<close> and is compared after \<open>toString()\<close>. The numeric
  alternative holds the non-negative integers, which print as their decimal digits.
  Identifiers are numeric-looking strings (never the name of a property that every object
  inherits, such as \<open>constructor\<close>), so a lookup in an object finds own properties only.
\<close>

datatype steam_id_raw = IdNum nat | IdStr string

fun toString :: "steam_id_raw \<Rightarrow> string" where
  "toString (IdNum n) = digits n"
| "toString (IdStr s) = s"

record DuelData =
  opponent_name :: string
  kills :: jsnum
  deaths :: jsnum
  diff :: jsnum

text \<open>
  The interfaces \<open>PlayerStats\<close> and \<open>AggregatedPlayerStats\<close> share the fields below; they
  are declared once, so that a function the source types
  \<open>PlayerStats | AggregatedPlayerStats\<close> is one function over both records.
\<close>

record counting =
  name :: string
  kills :: jsnum
  deaths :: jsnum
  assists :: jsnum
  rounds_played :: jsnum
  damage_total :: jsnum
  opening_kills :: jsnum
  opening_deaths :: jsnum
  opening_attempts :: jsnum
  sniper_kills :: jsnum
  utility_damage :: jsnum
  flashes_thrown :: jsnum
  hltv_3_0_score :: jsnum

record PlayerStats = counting +
  steam_id :: steam_id_raw
  last_team_name :: string
  last_side :: string
  duels :: "string \<rightharpoonup> DuelData"
  trade_kills :: "jsnum option"
  clutches_won_1v1 :: "jsnum option"
  clutches_won_1v2 :: "jsnum option"
  clutches_won_1v3 :: "jsnum option"
  clutches_won_1v4 :: "jsnum option"
  clutches_won_1v5 :: "jsnum option"

record Match =
  match_id :: string
  filename :: string
  timestamp :: jsnum
  data :: "PlayerStats list"

record AggregatedPlayerStats = counting +
  steam_id :: string
  matches :: jsnum
  trade_kills :: jsnum
  clutches_won :: jsnum

section \<open>Aggregation\<close>

text \<open>
  \<open>playerMap\<close> is an object used as a dictionary. It is modelled as an association list
  in order of property creation: \<open>AList.update\<close> overwrites the value of a key that is
  present and appends a key that is new.
\<close>

type_synonym playerMap = "(string \<times> AggregatedPlayerStats) list"

text \<open>The object literal stored under a steam id that is seen for the first time.\<close>

definition new_aggregate :: "string \<Rightarrow> PlayerStats \<Rightarrow> AggregatedPlayerStats" where
  "new_aggregate steamIdStr player =
     \<lparr> name = name player, kills = 0, deaths = 0, assists = 0, rounds_played = 0,
       damage_total = 0, opening_kills = 0, opening_deaths = 0, opening_attempts = 0,
       sniper_kills = 0, utility_damage = 0, flashes_thrown = 0, hltv_3_0_score = 0,
       steam_id = steamIdStr, matches = 0, trade_kills = 0, clutches_won = 0 \<rparr>"

text \<open>The constant \<open>clutches\<close> of the loop body: the five brackets, each \<open>|| 0\<close>.\<close>

definition clutches :: "PlayerStats \<Rightarrow> jsnum" where
  "clutches player =
     or_zero (clutches_won_1v1 player) + or_zero (clutches_won_1v2 player)
       + or_zero (clutches_won_1v3 player) + or_zero (clutches_won_1v4 player)
       + or_zero (clutches_won_1v5 player)"

text \<open>The assignments \<open>p.name = ...\<close> and \<open>p.x += ...\<close> of the loop body.\<close>

definition add_player :: "AggregatedPlayerStats \<Rightarrow> PlayerStats \<Rightarrow> AggregatedPlayerStats" where
  "add_player p player =
     p \<lparr> name := name player,
         matches := matches p + Fin 1,
         kills := kills p + kills player,
         deaths := deaths p + deaths player,
         assists := assists p + assists player,
         rounds_played := rounds_played p + rounds_played player,
         damage_total := damage_total p + damage_total player,
         hltv_3_0_score := hltv_3_0_score p + hltv_3_0_score player,
         sniper_kills := sniper_kills p + sniper_kills player,
         utility_damage := utility_damage p + utility_damage player,
         flashes_thrown := flashes_thrown p + flashes_thrown player,
         opening_kills := opening_kills p + opening_kills player,
         opening_deaths := opening_deaths p + opening_deaths player,
         opening_attempts := opening_attempts p + opening_attempts player,
         trade_kills := trade_kills p + or_zero (PlayerStats.trade_kills player),
         clutches_won := clutches_won p + clutches player \<rparr>"

text \<open>One iteration of the inner \<open>forEach\<close>: look the aggregate up or create it, then add.\<close>

definition aggregate_player :: "playerMap \<Rightarrow> PlayerStats \<Rightarrow> playerMap" where
  "aggregate_player playerMap player =
     (let steamIdStr = toString (PlayerStats.steam_id player);
          p = (case map_of playerMap steamIdStr of
                 None \<Rightarrow> new_aggregate steamIdStr player
               | Some a \<Rightarrow> a)
      in AList.update steamIdStr (add_player p player) playerMap)"

text \<open>
  \<open>Object.values\<close> lists the properties whose key is an array index (a canonical decimal
  string below \<open>2^32 - 1\<close>) first, in ascending numeric order, and then the other
  properties in order of creation.
\<close>

definition str_to_nat :: "string \<Rightarrow> nat" where
  "str_to_nat s = foldl (\<lambda>n c. 10 * n + (of_char c - 48)) 0 s"

definition array_index :: "string \<Rightarrow> nat option" where
  "array_index s =
     (if s \<noteq> [] \<and> list_all (\<lambda>c. c \<in> set ''0123456789'') s
         \<and> (s = ''0'' \<or> hd s \<noteq> CHR ''0'') \<and> str_to_nat s < 4294967295
      then Some (str_to_nat s) else None)"

definition Object_values :: "(string \<times> 'v) list \<Rightarrow> 'v list" where
  "Object_values obj =
     map snd (sort_key (\<lambda>kv. the (array_index (fst kv)))
                (filter (\<lambda>kv. array_index (fst kv) \<noteq> None) obj)
              @ filter (\<lambda>kv. array_index (fst kv) = None) obj)"

definition aggregatePlayerStats :: "Match list \<Rightarrow> AggregatedPlayerStats list" where
  "aggregatePlayerStats ms =
     Object_values (foldl (\<lambda>playerMap m. foldl aggregate_player playerMap (data m)) [] ms)"


section \<open>Derived metrics\<close>

datatype role = Sniper | Rifler

definition getWeaponRole :: "'a counting_scheme \<Rightarrow> role" where
  "getWeaponRole player =
     (let totalKills = kills player; sniperKills = sniper_kills player
      in if totalKills = Fin 0 then Rifler
         else let sniperPercentage = jmul (jdiv sniperKills totalKills) (Fin 100)
              in if jgt sniperPercentage (Fin 40) then Sniper else Rifler)"

text \<open>
  \<open>parseFloat\<close> on the strings that \<open>toFixed\<close> produces: an optional minus sign, then
  \<open>Infinity\<close> or decimal digits with an optional fraction; anything else is \<open>NaN\<close>.
\<close>

definition is_digit :: "char \<Rightarrow> bool" where
  "is_digit c = (c \<in> set ''0123456789'')"

definition parseFloat :: "string \<Rightarrow> jsnum" where
  "parseFloat s =
     (let neg = (take 1 s = ''-'');
          t = (if neg then drop 1 s else s);
          ip = takeWhile is_digit t;
          r = dropWhile is_digit t;
          fp = (if take 1 r = ''.'' then takeWhile is_digit (drop 1 r) else [])
      in if take 8 t = ''Infinity'' then (if neg then NInf else PInf)
         else if ip = [] \<and> fp = [] then NaN
         else let v = of_nat (str_to_nat ip) + of_nat (str_to_nat fp) / 10 ^ length fp
              in Fin (if neg then - v else v))"

text \<open>
  The player profile page. \<open>playerAggregatedStats\<close> aggregates the matches the player took
  part in and picks the player's aggregate; the constants after it are the \<open>const\<close>
  declarations of the component, as functions of that aggregate.
\<close>

definition playerAggregatedStats :: "Match list \<Rightarrow> string \<Rightarrow> AggregatedPlayerStats option" where
  "playerAggregatedStats ms steamId =
     (let playerMatches =
            filter (\<lambda>m. list_ex (\<lambda>p. toString (PlayerStats.steam_id p) = steamId) (data m)) ms;
          aggregated = aggregatePlayerStats playerMatches
      in find (\<lambda>p. steam_id p = steamId) aggregated)"

definition rating :: "AggregatedPlayerStats \<Rightarrow> string" where
  "rating p =
     (if jgt (matches p) 0 then toFixed 2 (jdiv (hltv_3_0_score p) (matches p)) else ''0.00'')"


definition adr :: "AggregatedPlayerStats \<Rightarrow> string" where
  "adr p =
     (if jgt (rounds_played p) 0 then toFixed 1 (jdiv (damage_total p) (rounds_played p))
      else ''0.0'')"




definition impactRating :: "AggregatedPlayerStats \<Rightarrow> string" where
  "impactRating p = toFixed 2 (jmul (parseFloat (rating p)) (Fin (95 / 100)))"

definition calcScore :: "jsnum \<Rightarrow> jsnum \<Rightarrow> jsnum" where
  "calcScore val target = Math_min (Fin 100) (Math_round (jmul (jdiv val target) (Fin 100)))"

definition firepowerScore :: "AggregatedPlayerStats \<Rightarrow> jsnum" where
  "firepowerScore p = calcScore (parseFloat (adr p)) (Fin 100)"

definition entryScore :: "AggregatedPlayerStats \<Rightarrow> jsnum" where
  "entryScore p =
     (if jgt (opening_attempts p) 0
      then calcScore (jdiv (opening_kills p) (opening_attempts p)) (Fin (6 / 10)) else 0)"

definition openingScore :: "AggregatedPlayerStats \<Rightarrow> jsnum" where
  "openingScore p = calcScore (jdiv (opening_kills p) (matches p)) (Fin (35 / 10))"

definition tradingScore :: "AggregatedPlayerStats \<Rightarrow> jsnum" where
  "tradingScore p = calcScore (jdiv (trade_kills p) (matches p)) (Fin 3)"

definition clutchingScore :: "AggregatedPlayerStats \<Rightarrow> jsnum" where
  "clutchingScore p = calcScore (jdiv (clutches_won p) (matches p)) (Fin 1)"

definition snipingScore :: "AggregatedPlayerStats \<Rightarrow> jsnum" where
  "snipingScore p = calcScore (jdiv (sniper_kills p) (kills p)) (Fin (5 / 10))"

definition utilityScore :: "AggregatedPlayerStats \<Rightarrow> jsnum" where
  "utilityScore p = calcScore (jdiv (utility_damage p) (matches p)) (Fin 300)"

definition utilDmgPerRound :: "AggregatedPlayerStats \<Rightarrow> string" where
  "utilDmgPerRound p =
     (if jgt (rounds_played p) 0 then toFixed 1 (jdiv (utility_damage p) (rounds_played p))
      else ''0.0'')"

text \<open>The ADR cell of the scoreboard of one match (\<open>MatchViewer\<close>).\<close>

definition scoreboard_adr :: "PlayerStats \<Rightarrow> string" where
  "scoreboard_adr p = toFixed 1 (jdiv (damage_total p) (rounds_played p))"

text \<open>
  The leaderboard row (\<open>SortableTable\<close>). A number used as a condition is true unless it
  is \<open>0\<close> or \<open>NaN\<close>.
\<close>

definition truthy :: "jsnum \<Rightarrow> bool" where
  "truthy x = (x \<noteq> Fin 0 \<and> x \<noteq> NaN)"

definition table_kpr :: "AggregatedPlayerStats \<Rightarrow> jsnum" where
  "table_kpr player =
     (if truthy (rounds_played player) then jdiv (kills player) (rounds_played player) else 0)"

definition table_adr :: "AggregatedPlayerStats \<Rightarrow> jsnum" where
  "table_adr player =
     (if truthy (rounds_played player) then jdiv (damage_total player) (rounds_played player)
      else 0)"

definition table_rating :: "AggregatedPlayerStats \<Rightarrow> jsnum" where
  "table_rating player =
     (if truthy (matches player) then jdiv (hltv_3_0_score player) (matches player) else 0)"


section \<open>Sorting with a comparator\<close>

text \<open>
  \<open>Array.prototype.sort\<close> is stable, and \<open>a\<close> stays before \<open>b\<close> unless the comparator
  returns a positive number for \<open>(a, b)\<close>. It is modelled as a stable insertion sort; every
  stable sort returns the same list when the comparator is a consistent ordering, which the
  language requires for the result to be defined.
\<close>

fun js_insert :: "('a \<Rightarrow> 'a \<Rightarrow> jsnum) \<Rightarrow> 'a \<Rightarrow> 'a list \<Rightarrow> 'a list" where
  "js_insert cmp x [] = [x]"
| "js_insert cmp x (y # ys) =
     (if jgt (cmp x y) 0 then y # js_insert cmp x ys else x # y # ys)"

definition js_sort :: "('a \<Rightarrow> 'a \<Rightarrow> jsnum) \<Rightarrow> 'a list \<Rightarrow> 'a list" where
  "js_sort cmp xs = foldr (js_insert cmp) xs []"

section \<open>Duel reconciliation\<close>

record DuelHistory =
  match :: Match
  p1Role :: role
  p2Role :: role
  p1Team :: string
  p2Team :: string
  p1Kills :: jsnum
  p2Kills :: jsnum

record DuelStats =
  p1 :: AggregatedPlayerStats
  p2 :: AggregatedPlayerStats
  p1Kills :: jsnum
  p2Kills :: jsnum
  history :: "DuelHistory list"

text \<open>
  The body of \<open>matches.forEach\<close> in \<open>duelStats\<close>, on the three variables the loop updates:
  the two running totals and the history.
\<close>

definition duel_match ::
  "string \<Rightarrow> string \<Rightarrow> jsnum \<times> jsnum \<times> DuelHistory list \<Rightarrow> Match
     \<Rightarrow> jsnum \<times> jsnum \<times> DuelHistory list" where
  "duel_match player1Id player2Id acc m =
     (case acc of (k1, k2, hist) \<Rightarrow>
        (case find (\<lambda>p. toString (PlayerStats.steam_id p) = player1Id) (data m) of
           None \<Rightarrow> acc
         | Some p1Data \<Rightarrow>
             (case find (\<lambda>p. toString (PlayerStats.steam_id p) = player2Id) (data m) of
                None \<Rightarrow> acc
              | Some p2Data \<Rightarrow>
                  (let p1Duel = duels p1Data player2Id;
                       p2Duel = duels p2Data player1Id;
                       commonData = (\<lambda>a b.
                         \<lparr> match = m, p1Role = getWeaponRole p1Data, p2Role = getWeaponRole p2Data,
                           p1Team = last_team_name p1Data, p2Team = last_team_name p2Data,
                           p1Kills = a, p2Kills = b \<rparr>)
                   in case p1Duel of
                        Some d \<Rightarrow>
                          (k1 + DuelData.kills d, k2 + DuelData.deaths d,
                           hist @ [commonData (DuelData.kills d) (DuelData.deaths d)])
                      | None \<Rightarrow>
                          (case p2Duel of
                             Some d \<Rightarrow>
                               (k1 + DuelData.deaths d, k2 + DuelData.kills d,
                                hist @ [commonData (DuelData.deaths d) (DuelData.kills d)])
                           | None \<Rightarrow> acc)))))"

text \<open>
  \<open>duelStats\<close> returns \<open>null\<close> (here \<open>None\<close>) when a selected id is \<open>null\<close> or empty, or
  when it is the id of no aggregated player.
\<close>

definition duelStats ::
  "string option \<Rightarrow> string option \<Rightarrow> AggregatedPlayerStats list \<Rightarrow> Match list
     \<Rightarrow> DuelStats option" where
  "duelStats player1Id player2Id allPlayers ms =
     (case (player1Id, player2Id) of
        (Some id1, Some id2) \<Rightarrow>
          if id1 = [] \<or> id2 = [] then None
          else (case (find (\<lambda>p. steam_id p = id1) allPlayers,
                      find (\<lambda>p. steam_id p = id2) allPlayers) of
                  (Some a, Some b) \<Rightarrow>
                    (case foldl (duel_match id1 id2) (0, 0, []) ms of
                       (k1, k2, hist) \<Rightarrow>
                         Some \<lparr> p1 = a, p2 = b, p1Kills = k1, p2Kills = k2,
                                history =
                                  js_sort (\<lambda>x y. jsub (timestamp (match y)) (timestamp (match x)))
                                    hist \<rparr>)
                | _ \<Rightarrow> None)
      | _ \<Rightarrow> None)"

section \<open>Team balancer\<close>

datatype assignment = Team1 | Team2 | Bench

type_synonym teams = "AggregatedPlayerStats list \<times> AggregatedPlayerStats list"

definition avg_rating :: "AggregatedPlayerStats \<Rightarrow> jsnum" where
  "avg_rating p = jdiv (hltv_3_0_score p) (matches p)"

text \<open>\<open>team.reduce((sum, p) => sum + p.hltv_3_0_score / p.matches, 0)\<close>\<close>

definition team_rating :: "AggregatedPlayerStats list \<Rightarrow> jsnum" where
  "team_rating team = foldl (\<lambda>sum p. sum + avg_rating p) 0 team"

text \<open>The body of \<open>pool.forEach\<close>: the player joins one team, or neither.\<close>

definition place_player :: "nat \<Rightarrow> teams \<Rightarrow> AggregatedPlayerStats \<Rightarrow> teams" where
  "place_player teamSize ts player =
     (case ts of (t1, t2) \<Rightarrow>
        (let team1Rating = team_rating t1; team2Rating = team_rating t2
         in if length t1 < teamSize \<and> (jle team1Rating team2Rating \<or> teamSize \<le> length t2)
            then (t1 @ [player], t2)
            else if length t2 < teamSize then (t1, t2 @ [player])
            else (t1, t2)))"

definition activePlayers ::
  "string list \<Rightarrow> (string \<rightharpoonup> assignment) \<Rightarrow> AggregatedPlayerStats list
     \<Rightarrow> AggregatedPlayerStats list" where
  "activePlayers lobbyPlayers manualAssignments allPlayers =
     List.map_filter (\<lambda>i. find (\<lambda>p. steam_id p = i) allPlayers)
       (filter (\<lambda>i. manualAssignments i \<noteq> Some Bench) lobbyPlayers)"

text \<open>
  The lobby is a list of steam ids. A player is added only when absent (and while the lobby
  has fewer than ten members), so the ids of a lobby are distinct.
\<close>

definition addPlayerToLobby :: "string list \<Rightarrow> string \<Rightarrow> string list" where
  "addPlayerToLobby lobbyPlayers steamId =
     (if steamId \<notin> set lobbyPlayers \<and> length lobbyPlayers < 10 then lobbyPlayers @ [steamId]
      else lobbyPlayers)"

definition removePlayerFromLobby :: "string list \<Rightarrow> string \<Rightarrow> string list" where
  "removePlayerFromLobby lobbyPlayers steamId = filter (\<lambda>i. i \<noteq> steamId) lobbyPlayers"

text \<open>The text of the alert that reports an odd or too small active roster.\<close>

definition validation_alert :: string where
  "validation_alert = ''Please select an even number of active (not benched) players.''"

text \<open>
  \<open>generateTeams\<close> reads the lobby, the manual assignments and the aggregated players, and
  writes the state \<open>generatedTeams\<close>. The result is the alert it shows, if any, and the
  value of \<open>generatedTeams\<close> after the call.
\<close>

definition generateTeams ::
  "string list \<Rightarrow> (string \<rightharpoonup> assignment) \<Rightarrow> AggregatedPlayerStats list \<Rightarrow> teams option
     \<Rightarrow> string option \<times> teams option" where
  "generateTeams lobbyPlayers manualAssignments allPlayers generatedTeams =
     (let active = activePlayers lobbyPlayers manualAssignments allPlayers
      in if length active mod 2 \<noteq> 0 \<or> length active < 2
         then (Some validation_alert, generatedTeams)
         else
           (let teamSize = length active div 2;
                team1 = filter (\<lambda>p. manualAssignments (steam_id p) = Some Team1) active;
                team2 = filter (\<lambda>p. manualAssignments (steam_id p) = Some Team2) active;
                pool = js_sort (\<lambda>a b. jsub (avg_rating b) (avg_rating a))
                         (filter (\<lambda>p. manualAssignments (steam_id p) = None) active)
            in (None, Some (foldl (place_player teamSize) (team1, team2) pool))))"

section \<open>The aggregate of a player, as the specification words it\<close>

text \<open>
  The participants of a list of matches in fold order, the normalised id of a participant,
  and the occurrences of one id among the participants.
\<close>

definition participants :: "Match list \<Rightarrow> PlayerStats list" where
  "participants ms = concat (map data ms)"

definition norm_id :: "PlayerStats \<Rightarrow> string" where
  "norm_id p = toString (PlayerStats.steam_id p)"



text \<open>
  The aggregate that the specification describes for the id \<open>k\<close> with occurrences
  \<open>occ\<close>: \<open>matches\<close> counts the occurrences, every counting stat is the sum over them,
  \<open>clutches_won\<close> sums the five brackets, and the name is the one of the last occurrence.
\<close>

definition totals :: "string \<Rightarrow> PlayerStats list \<Rightarrow> AggregatedPlayerStats" where
  "totals k occ =
     \<lparr> name = name (last occ),
       kills = sum_list (map kills occ),
       deaths = sum_list (map deaths occ),
       assists = sum_list (map assists occ),
       rounds_played = sum_list (map rounds_played occ),
       damage_total = sum_list (map damage_total occ),
       opening_kills = sum_list (map opening_kills occ),
       opening_deaths = sum_list (map opening_deaths occ),
       opening_attempts = sum_list (map opening_attempts occ),
       sniper_kills = sum_list (map sniper_kills occ),
       utility_damage = sum_list (map utility_damage occ),
       flashes_thrown = sum_list (map flashes_thrown occ),
       hltv_3_0_score = sum_list (map hltv_3_0_score occ),
       steam_id = k,
       matches = Fin (of_nat (length occ)),
       trade_kills = sum_list (map (\<lambda>p. or_zero (PlayerStats.trade_kills p)) occ),
       clutches_won = sum_list (map clutches occ) \<rparr>"


text \<open>
  A worked example: the player \<open>7\<close> takes part in two matches, once with a numeric id and
  once with the id as a string, and changes name in between.
\<close>

definition ex_p1 :: PlayerStats where
  "ex_p1 = \<lparr> name = ''old'', kills = Fin 20, deaths = Fin 10, assists = Fin 3,
     rounds_played = Fin 24, damage_total = Fin 2000, opening_kills = Fin 2,
     opening_deaths = Fin 1, opening_attempts = Fin 4, sniper_kills = Fin 5,
     utility_damage = Fin 100, flashes_thrown = Fin 7, hltv_3_0_score = Fin (11 / 10),
     PlayerStats.steam_id = IdNum 7, last_team_name = ''A'', last_side = ''CT'',
     duels = Map.empty, trade_kills = None,
     clutches_won_1v1 = Some (Fin 2), clutches_won_1v2 = Some (Fin 1),
     clutches_won_1v3 = Some (Fin 0), clutches_won_1v4 = None, clutches_won_1v5 = None \<rparr>"

definition ex_ms :: "Match list" where
  "ex_ms = [\<lparr> match_id = ''m1'', filename = ''a.json'', timestamp = Fin 1, data = [ex_p1] \<rparr>,
            \<lparr> match_id = ''m2'', filename = ''b.json'', timestamp = Fin 2,
              data = [ex_p1 \<lparr> name := ''new'', PlayerStats.steam_id := IdStr ''7'' \<rparr>] \<rparr>]"



text \<open>A record with \<open>k\<close> kills, \<open>s\<close> of them with a sniper rifle.\<close>

definition ex_role :: "rat \<Rightarrow> rat \<Rightarrow> counting" where
  "ex_role k s = \<lparr> name = ''p'', kills = Fin k, deaths = Fin 1, assists = Fin 0,
     rounds_played = Fin 24, damage_total = Fin 0, opening_kills = Fin 0,
     opening_deaths = Fin 0, opening_attempts = Fin 0, sniper_kills = Fin s,
     utility_damage = Fin 0, flashes_thrown = Fin 0, hltv_3_0_score = Fin 1 \<rparr>"



text \<open>
  A match with a player who made no kill in 24 rounds, and a player who is listed but
  played no round.
\<close>

definition ex_quiet :: PlayerStats where
  "ex_quiet = \<lparr> name = ''quiet'', kills = Fin 0, deaths = Fin 5, assists = Fin 2,
     rounds_played = Fin 24, damage_total = Fin 120, opening_kills = Fin 0,
     opening_deaths = Fin 1, opening_attempts = Fin 0, sniper_kills = Fin 0,
     utility_damage = Fin 10, flashes_thrown = Fin 1, hltv_3_0_score = Fin (2 / 5),
     PlayerStats.steam_id = IdStr ''76561198000000002'', last_team_name = ''A'',
     last_side = ''CT'', duels = Map.empty, trade_kills = None,
     clutches_won_1v1 = None, clutches_won_1v2 = None, clutches_won_1v3 = None,
     clutches_won_1v4 = None, clutches_won_1v5 = None \<rparr>"

definition ex_idle :: PlayerStats where
  "ex_idle = \<lparr> name = ''idle'', kills = Fin 0, deaths = Fin 0, assists = Fin 0,
     rounds_played = Fin 0, damage_total = Fin 0, opening_kills = Fin 0,
     opening_deaths = Fin 0, opening_attempts = Fin 0, sniper_kills = Fin 0,
     utility_damage = Fin 0, flashes_thrown = Fin 0, hltv_3_0_score = Fin 0,
     PlayerStats.steam_id = IdStr ''76561198000000003'', last_team_name = ''B'',
     last_side = ''T'', duels = Map.empty, trade_kills = None,
     clutches_won_1v1 = None, clutches_won_1v2 = None, clutches_won_1v3 = None,
     clutches_won_1v4 = None, clutches_won_1v5 = None \<rparr>"

definition ex_quiet_ms :: "Match list" where
  "ex_quiet_ms =
     [\<lparr> match_id = ''q1'', filename = ''q.json'', timestamp = Fin 9, data = [ex_quiet, ex_idle] \<rparr>]"

section \<open>Duel reconciliation, as the specification words it\<close>

text \<open>
  The participant of a match with a given id, and what the match contributes to the
  ledger of \<open>A\<close> and \<open>B\<close>: with both taking part, A's own entry for B if there is one
  (A's kills, A's deaths), otherwise B's entry for A read the other way round (B's
  deaths, B's kills), otherwise nothing.
\<close>

definition participant :: "string \<Rightarrow> Match \<Rightarrow> PlayerStats option" where
  "participant i m = find (\<lambda>p. norm_id p = i) (data m)"

definition duel_contribution :: "string \<Rightarrow> string \<Rightarrow> Match \<Rightarrow> (jsnum \<times> jsnum) option" where
  "duel_contribution A B m =
     (case (participant A m, participant B m) of
        (Some a, Some b) \<Rightarrow>
          (case duels a B of
             Some e \<Rightarrow> Some (DuelData.kills e, DuelData.deaths e)
           | None \<Rightarrow>
               (case duels b A of
                  Some e \<Rightarrow> Some (DuelData.deaths e, DuelData.kills e)
                | None \<Rightarrow> None))
      | _ \<Rightarrow> None)"

text \<open>What a history entry says about the score: the match and the two kill counts.\<close>

definition history_score :: "DuelHistory \<Rightarrow> Match \<times> jsnum \<times> jsnum" where
  "history_score h = (match h, DuelHistory.p1Kills h, DuelHistory.p2Kills h)"

text \<open>
  Four matches of \<open>A\<close> and \<open>B\<close>: only B recorded the duel; both recorded it; B is absent;
  nobody recorded it.
\<close>

definition ex_duelist :: "string \<Rightarrow> (string \<rightharpoonup> DuelData) \<Rightarrow> PlayerStats" where
  "ex_duelist i ds = ex_idle \<lparr> PlayerStats.steam_id := IdStr i, duels := ds \<rparr>"

definition ex_duel :: "rat \<Rightarrow> rat \<Rightarrow> DuelData" where
  "ex_duel k d = \<lparr> opponent_name = ''x'', DuelData.kills = Fin k, DuelData.deaths = Fin d,
                   diff = Fin (k - d) \<rparr>"

definition ex_duel_ms :: "Match list" where
  "ex_duel_ms =
     [\<lparr> match_id = ''d1'', filename = ''d1.json'', timestamp = Fin 1,
        data = [ex_duelist ''A'' Map.empty, ex_duelist ''B'' [''A'' \<mapsto> ex_duel 3 1]] \<rparr>,
      \<lparr> match_id = ''d2'', filename = ''d2.json'', timestamp = Fin 2,
        data = [ex_duelist ''A'' [''B'' \<mapsto> ex_duel 2 0], ex_duelist ''B'' [''A'' \<mapsto> ex_duel 5 5]] \<rparr>,
      \<lparr> match_id = ''d3'', filename = ''d3.json'', timestamp = Fin 3,
        data = [ex_duelist ''A'' [''B'' \<mapsto> ex_duel 7 7]] \<rparr>,
      \<lparr> match_id = ''d4'', filename = ''d4.json'', timestamp = Fin 4,
        data = [ex_duelist ''A'' Map.empty, ex_duelist ''B'' Map.empty] \<rparr>]"

section \<open>Team balancing, as the specification words it\<close>

text \<open>
  The average rating of a member as a rational number (summed rating score over matches),
  defined where both are finite and the matches are not zero.
\<close>

definition rating_of :: "AggregatedPlayerStats \<Rightarrow> rat" where
  "rating_of p = (case (hltv_3_0_score p, matches p) of (Fin h, Fin m) \<Rightarrow> h / m | _ \<Rightarrow> 0)"




text \<open>Nine aggregated players with the ids \<open>11\<close> to \<open>19\<close>, and the lobby of the first \<open>n\<close>.\<close>

definition ex_member :: "string \<Rightarrow> rat \<Rightarrow> rat \<Rightarrow> AggregatedPlayerStats" where
  "ex_member i h m =
     \<lparr> name = i, kills = Fin 10, deaths = Fin 10, assists = Fin 1, rounds_played = Fin 20,
       damage_total = Fin 1500, opening_kills = Fin 1, opening_deaths = Fin 1,
       opening_attempts = Fin 2, sniper_kills = Fin 0, utility_damage = Fin 50,
       flashes_thrown = Fin 3, hltv_3_0_score = Fin h, steam_id = i, matches = Fin m,
       trade_kills = Fin 1, clutches_won = Fin 0 \<rparr>"

definition ex_all :: "AggregatedPlayerStats list" where
  "ex_all = [ex_member ''11'' 3 2, ex_member ''12'' (13 / 10) 1, ex_member ''13'' (26 / 10) 2,
             ex_member ''14'' 1 1, ex_member ''15'' (9 / 10) 1, ex_member ''16'' (8 / 10) 1,
             ex_member ''17'' (7 / 10) 1, ex_member ''18'' (6 / 10) 1, ex_member ''19'' 2 1]"

definition ex_lobby :: "nat \<Rightarrow> string list" where
  "ex_lobby n = take n [''11'', ''12'', ''13'', ''14'', ''15'', ''16'', ''17'', ''18'', ''19'']"

section \<open>Aggregation: one aggregate per normalised id\<close>

lemma foldl_add_player:
  "foldl add_player a occ =
     a \<lparr> name := (if occ = [] then name a else name (last occ)),
         kills := kills a + sum_list (map kills occ),
         deaths := deaths a + sum_list (map deaths occ),
         assists := assists a + sum_list (map assists occ),
         rounds_played := rounds_played a + sum_list (map rounds_played occ),
         damage_total := damage_total a + sum_list (map damage_total occ),
         opening_kills := opening_kills a + sum_list (map opening_kills occ),
         opening_deaths := opening_deaths a + sum_list (map opening_deaths occ),
         opening_attempts := opening_attempts a + sum_list (map opening_attempts occ),
         sniper_kills := sniper_kills a + sum_list (map sniper_kills occ),
         utility_damage := utility_damage a + sum_list (map utility_damage occ),
         flashes_thrown := flashes_thrown a + sum_list (map flashes_thrown occ),
         hltv_3_0_score := hltv_3_0_score a + sum_list (map hltv_3_0_score occ),
         matches := matches a + Fin (of_nat (length occ)),
         trade_kills := trade_kills a + sum_list (map (\<lambda>p. or_zero (PlayerStats.trade_kills p)) occ),
         clutches_won := clutches_won a + sum_list (map clutches occ) \<rparr>"
proof (induction occ arbitrary: a)
  case Nil
  show ?case by (simp add: zero_jsnum_def[symmetric])
next
  case (Cons x xs)
  show ?case
    unfolding foldl_Cons Cons.IH
    by (simp add: add_player_def add.assoc)
qed

lemma foldl_new_aggregate:
  "occ \<noteq> [] \<Longrightarrow> foldl add_player (new_aggregate k (hd occ)) occ = totals k occ"
  by (simp add: foldl_add_player new_aggregate_def totals_def)


lemma foldl_nested:
  "foldl (\<lambda>acc m. foldl f acc (g m)) a ms = foldl f a (concat (map g ms))"
  by (induction ms arbitrary: a) simp_all

lemma map_of_aggregate_player:
  "map_of (aggregate_player pm x) =
     (map_of pm)(norm_id x \<mapsto>
        add_player (case map_of pm (norm_id x) of None \<Rightarrow> new_aggregate (norm_id x) x | Some a \<Rightarrow> a) x)"
  unfolding aggregate_player_def norm_id_def Let_def by (simp add: update_conv')

lemma distinct_aggregate_player:
  "distinct (map fst pm) \<Longrightarrow> distinct (map fst (aggregate_player pm x))"
  by (simp add: aggregate_player_def Let_def distinct_update)

lemma distinct_foldl_aggregate_player:
  "distinct (map fst pm) \<Longrightarrow> distinct (map fst (foldl aggregate_player pm ps))"
  by (induction ps arbitrary: pm) (simp_all add: distinct_aggregate_player)

lemma map_of_foldl_aggregate_player:
  "map_of (foldl aggregate_player [] ps) k =
     (if filter (\<lambda>p. norm_id p = k) ps = [] then None
      else Some (totals k (filter (\<lambda>p. norm_id p = k) ps)))"
proof (induction ps rule: rev_induct)
  case Nil
  show ?case by simp
next
  case (snoc x xs)
  show ?case
  proof (cases "norm_id x = k")
    case False
    then show ?thesis
      by (simp add: map_of_aggregate_player snoc.IH)
  next
    case True
    show ?thesis
    proof (cases "filter (\<lambda>p. norm_id p = k) xs = []")
      case True
      with \<open>norm_id x = k\<close> show ?thesis
        using foldl_new_aggregate [of "[x]" k]
        by (simp add: map_of_aggregate_player snoc.IH)
    next
      case False
      then have "foldl add_player (new_aggregate k (hd (filter (\<lambda>p. norm_id p = k) xs)))
                   (filter (\<lambda>p. norm_id p = k) xs @ [x])
                 = totals k (filter (\<lambda>p. norm_id p = k) xs @ [x])"
        using foldl_new_aggregate [of "filter (\<lambda>p. norm_id p = k) xs @ [x]" k] by simp
      with False \<open>norm_id x = k\<close> show ?thesis
        using foldl_new_aggregate [of "filter (\<lambda>p. norm_id p = k) xs" k]
        by (simp add: map_of_aggregate_player snoc.IH)
    qed
  qed
qed

lemma mset_Object_values: "mset (Object_values obj) = mset (map snd obj)"
proof -
  have "mset (filter (\<lambda>kv. array_index (fst kv) \<noteq> None) obj)
          + mset (filter (\<lambda>kv. array_index (fst kv) = None) obj) = mset obj"
    by (induction obj) simp_all
  then have "image_mset snd (mset (filter (\<lambda>kv. array_index (fst kv) \<noteq> None) obj))
          + image_mset snd (mset (filter (\<lambda>kv. array_index (fst kv) = None) obj))
          = image_mset snd (mset obj)"
    by (metis image_mset_union)
  then show ?thesis
    by (simp add: Object_values_def)
qed

lemma set_Object_values: "set (Object_values obj) = snd ` set obj"
  using mset_Object_values [of obj] by (metis set_map set_mset_mset)

lemma playerMap_eq:
  "aggregatePlayerStats ms = Object_values (foldl aggregate_player [] (participants ms))"
  by (simp add: aggregatePlayerStats_def participants_def foldl_nested)

lemma in_aggregatePlayerStats:
  "a \<in> set (aggregatePlayerStats ms) \<longleftrightarrow>
     (\<exists>p \<in> set (participants ms). a = totals (norm_id p) (filter (\<lambda>q. norm_id q = norm_id p) (participants ms)))"
  (is "?L \<longleftrightarrow> ?R")
proof -
  let ?pm = "foldl aggregate_player [] (participants ms)"
  have d: "distinct (map fst ?pm)"
    by (rule distinct_foldl_aggregate_player) simp
  have "?L \<longleftrightarrow> (\<exists>k. (k, a) \<in> set ?pm)"
    by (force simp: playerMap_eq set_Object_values image_iff)
  also have "\<dots> \<longleftrightarrow> (\<exists>k. map_of ?pm k = Some a)"
    using d by simp
  also have "\<dots> \<longleftrightarrow> ?R"
    by (auto simp: map_of_foldl_aggregate_player filter_empty_conv)
  finally show ?thesis .
qed

lemma steam_id_totals [simp]: "steam_id (totals k occ) = k"
  by (simp add: totals_def)




lemma aggregatePlayerStats_ids:
  "set (map steam_id (aggregatePlayerStats ms)) = norm_id ` set (participants ms)"
proof
  show "set (map steam_id (aggregatePlayerStats ms)) \<subseteq> norm_id ` set (participants ms)"
    by (auto simp: in_aggregatePlayerStats)
  show "norm_id ` set (participants ms) \<subseteq> set (map steam_id (aggregatePlayerStats ms))"
  proof
    fix k assume "k \<in> norm_id ` set (participants ms)"
    then obtain p where p: "p \<in> set (participants ms)" "k = norm_id p" by auto
    then have "totals k (filter (\<lambda>q. norm_id q = k) (participants ms))
                 \<in> set (aggregatePlayerStats ms)"
      by (auto simp: in_aggregatePlayerStats)
    then have "steam_id (totals k (filter (\<lambda>q. norm_id q = k) (participants ms)))
                 \<in> set (map steam_id (aggregatePlayerStats ms))"
      by (simp only: set_map image_eqI)
    then show "k \<in> set (map steam_id (aggregatePlayerStats ms))"
      by (simp only: steam_id_totals)
  qed
qed



lemma floor_rat_numeral [simp]:
  "\<lfloor>(numeral a / numeral b :: rat)\<rfloor> = numeral a div numeral b"
  using floor_divide_of_int_eq [of "numeral a" "numeral b", where ?'a = rat] by simp

lemma floor_rat_one_numeral [simp]:
  "\<lfloor>(1 / numeral b :: rat)\<rfloor> = 1 div numeral b"
  using floor_divide_of_int_eq [of 1 "numeral b", where ?'a = rat] by simp

lemma Object_values_single [simp]: "Object_values [(k, v)] = [v]"
  by (simp add: Object_values_def)

lemma ex_ms_aggregated: "map steam_id (aggregatePlayerStats ex_ms) = [''7'']"
  by (simp add: aggregatePlayerStats_def ex_ms_def ex_p1_def aggregate_player_def Let_def
        digits.simps new_aggregate_def add_player_def)



section \<open>Aggregation: the order of the matches\<close>










section \<open>Role classification\<close>

text \<open>
  Claim C6. For every player record or aggregate with a non-negative number of kills, the
  role is Sniper exactly when the kills are not zero and the sniper kills strictly exceed
  40 percent of them, and Rifler otherwise; zero kills give Rifler.
\<close>

theorem getWeaponRole_threshold:
  assumes "kills p = Fin k" and "sniper_kills p = Fin s" and "0 \<le> k"
  shows "getWeaponRole p = (if k \<noteq> 0 \<and> 40 / 100 * k < s then Sniper else Rifler)"
proof (cases "k = 0")
  case True
  with assms show ?thesis
    by (simp add: getWeaponRole_def)
next
  case False
  with assms have "0 < k" by simp
  then have "(40 < s / k * 100) = (40 / 100 * k < s)"
    by (simp add: field_simps)
  with assms False show ?thesis
    by (simp add: getWeaponRole_def jgt_def)
qed

text \<open>The boundary: 40 of 100 kills is Rifler, 41 of 100 is Sniper, no kills is Rifler.\<close>

theorem getWeaponRole_threshold_witness:
  "getWeaponRole (ex_role 100 40) = Rifler \<and> getWeaponRole (ex_role 100 41) = Sniper
   \<and> getWeaponRole (ex_role 0 0) = Rifler"
  using getWeaponRole_threshold [of "ex_role 100 40" 100 40]
    getWeaponRole_threshold [of "ex_role 100 41" 100 41]
    getWeaponRole_threshold [of "ex_role 0 0" 0 0]
  by (simp add: ex_role_def)

section \<open>Duel reconciliation: unknown players\<close>

text \<open>
  Claim C9. For every pair of selected ids, if one of them is the id of no aggregated
  player, duel reconciliation returns the empty result \<open>null\<close>; no branch of the function
  raises.
\<close>

theorem duelStats_unresolved:
  assumes "find (\<lambda>p. steam_id p = a) allPlayers = None
           \<or> find (\<lambda>p. steam_id p = b) allPlayers = None"
  shows "duelStats (Some a) (Some b) allPlayers ms = None"
  using assms by (auto simp: duelStats_def split: option.splits)

text \<open>In the worked example the id \<open>8\<close> belongs to no player.\<close>

theorem duelStats_unresolved_witness:
  "find (\<lambda>p. steam_id p = ''8'') (aggregatePlayerStats ex_ms) = None
   \<and> duelStats (Some ''7'') (Some ''8'') (aggregatePlayerStats ex_ms) ex_ms = None"
proof -
  have "find (\<lambda>p. steam_id p = ''8'') (aggregatePlayerStats ex_ms) = None"
    using ex_ms_aggregated by (auto simp: find_None_iff dest: arg_cong [where f = set])
  then show ?thesis
    using duelStats_unresolved [of "''7''" "aggregatePlayerStats ex_ms" "''8''" ex_ms] by simp
qed

section \<open>Rate statistics\<close>







section \<open>Divisions by zero\<close>

lemma ex_quiet_aggregated:
  "\<exists>p q. aggregatePlayerStats ex_quiet_ms = [p, q]
      \<and> kills p = Fin 0 \<and> sniper_kills p = Fin 0 \<and> rounds_played p = Fin 24
      \<and> damage_total p = Fin 120 \<and> opening_attempts p = Fin 0
      \<and> kills q = Fin 0 \<and> sniper_kills q = Fin 0 \<and> rounds_played q = Fin 0
      \<and> damage_total q = Fin 0 \<and> opening_attempts q = Fin 0"
  by (simp add: aggregatePlayerStats_def ex_quiet_ms_def ex_quiet_def ex_idle_def
        aggregate_player_def Let_def new_aggregate_def add_player_def zero_jsnum_def
        Object_values_def array_index_def str_to_nat_def)

lemma toFixed_scoreboard:
  "toFixed (Suc 0) (Fin 5) = ''5.0''" "toFixed (Suc 0) NaN = ''NaN''"
  by code_simp+

text \<open>
  Claim C1 says that every division of a derived metric yields \<open>0\<close> when its denominator
  is zero: the Sniping score when the kills are zero, the ADR of a match when no round was
  played. The profile page guards its rates and the Entry score that way, but the Sniping
  score divides by the kills unguarded and the scoreboard divides by the rounds unguarded:
  for the two players of the example the Sniping score is \<open>NaN\<close>, and the scoreboard shows
  \<open>NaN\<close> as the ADR of the player without rounds, where the guarded ADR of the profile
  page shows \<open>0.0\<close> and gives the Firepower score \<open>0\<close>. (An aggregate has at least one
  match, so the scores that divide by the matches never meet a zero there.)
\<close>

theorem zero_denominator_unguarded:
  "map snipingScore (aggregatePlayerStats ex_quiet_ms) = [NaN, NaN]
   \<and> map scoreboard_adr (data (hd ex_quiet_ms)) = [''5.0'', ''NaN'']
   \<and> map adr (aggregatePlayerStats ex_quiet_ms) = [''5.0'', ''0.0'']
   \<and> map entryScore (aggregatePlayerStats ex_quiet_ms) = [0, 0]
   \<and> map firepowerScore (aggregatePlayerStats ex_quiet_ms) = [Fin 5, Fin 0]"
proof -
  from ex_quiet_aggregated obtain p q where a: "aggregatePlayerStats ex_quiet_ms = [p, q]"
    and p: "kills p = Fin 0" "sniper_kills p = Fin 0" "rounds_played p = Fin 24"
      "damage_total p = Fin 120" "opening_attempts p = Fin 0"
    and q: "kills q = Fin 0" "sniper_kills q = Fin 0" "rounds_played q = Fin 0"
      "damage_total q = Fin 0" "opening_attempts q = Fin 0"
    by blast
  have "snipingScore p = NaN" "snipingScore q = NaN"
    using p q by (simp_all add: snipingScore_def calcScore_def Math_min_def)
  moreover have "map scoreboard_adr (data (hd ex_quiet_ms)) = [''5.0'', ''NaN'']"
    by (simp add: ex_quiet_ms_def ex_quiet_def ex_idle_def scoreboard_adr_def toFixed_scoreboard)
  moreover have "adr p = ''5.0''" "adr q = ''0.0''"
    using p q by (simp_all add: adr_def jgt_def zero_jsnum_def toFixed_scoreboard)
  moreover have "entryScore p = 0" "entryScore q = 0"
    using p q by (simp_all add: entryScore_def jgt_def zero_jsnum_def)
  moreover have "parseFloat ''5.0'' = Fin 5" "parseFloat ''0.0'' = Fin 0"
    by code_simp+
  then have "firepowerScore p = Fin 5" "firepowerScore q = Fin 0"
    using p q by (simp_all add: firepowerScore_def adr_def jgt_def zero_jsnum_def
          toFixed_scoreboard calcScore_def Math_min_def)
  ultimately show ?thesis
    using a by simp
qed

section \<open>Duel reconciliation: the ledger\<close>

lemma duel_match_step:
  "duel_match A B (k1, k2, h) m =
     (case duel_contribution A B m of
        None \<Rightarrow> (k1, k2, h)
      | Some (a, b) \<Rightarrow> (k1 + a, k2 + b, snd (snd (duel_match A B (k1, k2, h) m))))"
  by (simp add: duel_match_def duel_contribution_def participant_def norm_id_def Let_def
        split: option.splits)

lemma duel_match_history:
  "map history_score (snd (snd (duel_match A B (k1, k2, h) m))) =
     map history_score h @
       (case duel_contribution A B m of None \<Rightarrow> [] | Some c \<Rightarrow> [(m, c)])"
  by (simp add: duel_match_def duel_contribution_def participant_def norm_id_def Let_def
        history_score_def split: option.splits)

lemma foldl_duel_match:
  "foldl (duel_match A B) (k1, k2, h) ms = (k1', k2', h') \<Longrightarrow>
     k1' = k1 + sum_list (map fst (List.map_filter (duel_contribution A B) ms))
     \<and> k2' = k2 + sum_list (map snd (List.map_filter (duel_contribution A B) ms))
     \<and> map history_score h' =
         map history_score h
           @ List.map_filter (\<lambda>m. map_option (Pair m) (duel_contribution A B m)) ms"
proof (induction ms arbitrary: k1 k2 h)
  case Nil
  then show ?case by (simp add: map_filter_simps)
next
  case (Cons m ms)
  obtain j1 j2 g where step: "duel_match A B (k1, k2, h) m = (j1, j2, g)"
    by (cases "duel_match A B (k1, k2, h) m") auto
  with Cons.prems have "foldl (duel_match A B) (j1, j2, g) ms = (k1', k2', h')"
    by simp
  note ih = Cons.IH [OF this]
  from duel_match_history [of A B k1 k2 h m] step
  have g: "map history_score g =
     map history_score h @ (case duel_contribution A B m of None \<Rightarrow> [] | Some c \<Rightarrow> [(m, c)])"
    by simp
  show ?case
  proof (cases "duel_contribution A B m")
    case None
    with duel_match_step [of A B k1 k2 h m] step have "j1 = k1" "j2 = k2" by simp_all
    with ih g None show ?thesis
      by (simp add: map_filter_simps)
  next
    case (Some c)
    obtain a b where c: "c = (a, b)" by (cases c)
    with Some duel_match_step [of A B k1 k2 h m] step have "j1 = k1 + a" "j2 = k2 + b"
      by simp_all
    with ih g Some c show ?thesis
      by (simp add: map_filter_simps add.assoc)
  qed
qed

lemma mset_js_insert: "mset (js_insert cmp x xs) = add_mset x (mset xs)"
  by (induction xs) simp_all

lemma mset_js_sort: "mset (js_sort cmp xs) = mset xs"
  unfolding js_sort_def by (induction xs) (simp_all add: mset_js_insert)

text \<open>
  Claim C2. For every match collection and every pair of ids \<open>A\<close> and \<open>B\<close> for which
  duel reconciliation returns a result, the two totals are the sums of the per-match
  contributions: only matches in which both take part contribute; A's entry for B gives
  (its kills, its deaths); without it, B's entry for A gives (its deaths, its kills);
  without both, the match adds nothing to the totals and no entry to the history.
\<close>

theorem duelStats_reconciled:
  assumes "duelStats (Some A) (Some B) allPlayers ms = Some r"
  shows "p1Kills r = sum_list (map fst (List.map_filter (duel_contribution A B) ms))
         \<and> p2Kills r = sum_list (map snd (List.map_filter (duel_contribution A B) ms))
         \<and> mset (map history_score (history r))
             = mset (List.map_filter (\<lambda>m. map_option (Pair m) (duel_contribution A B m)) ms)"
proof -
  obtain k1 k2 h where f: "foldl (duel_match A B) (0, 0, []) ms = (k1, k2, h)"
    by (cases "foldl (duel_match A B) (0, 0, []) ms") auto
  from assms f have r: "p1Kills r = k1" "p2Kills r = k2"
    "history r = js_sort (\<lambda>x y. jsub (timestamp (match y)) (timestamp (match x))) h"
    by (auto simp: duelStats_def split: option.splits if_splits)
  from r(3) have "mset (map history_score (history r)) = mset (map history_score h)"
    by (simp add: mset_js_sort)
  with foldl_duel_match [OF f] r(1,2) show ?thesis
    by simp
qed


lemma find_Some_ex:
  assumes "x \<in> set xs" and "P x"
  shows "\<exists>y. find P xs = Some y"
  using assms by (cases "find P xs") (auto simp: find_None_iff)

lemma ex_duel_contributions:
  "List.map_filter (duel_contribution ''A'' ''B'') ex_duel_ms = [(Fin 1, Fin 3), (Fin 2, Fin 0)]"
  by (simp add: map_filter_simps duel_contribution_def participant_def norm_id_def
        ex_duel_ms_def ex_duelist_def ex_duel_def)

lemma ex_duel_ids: "set (map steam_id (aggregatePlayerStats ex_duel_ms)) = {''A'', ''B''}"
  unfolding aggregatePlayerStats_ids
  by (auto simp: participants_def norm_id_def ex_duel_ms_def ex_duelist_def)

lemma ex_duel_resolved:
  assumes "i \<in> {''A'', ''B''}"
  shows "\<exists>a. find (\<lambda>p. steam_id p = i) (aggregatePlayerStats ex_duel_ms) = Some a"
proof -
  from assms have "i \<in> set (map steam_id (aggregatePlayerStats ex_duel_ms))"
    by (simp only: ex_duel_ids)
  then obtain a where "a \<in> set (aggregatePlayerStats ex_duel_ms)" "steam_id a = i"
    by auto
  then show ?thesis
    by (rule find_Some_ex)
qed

lemma duelStats_resolved:
  assumes "find (\<lambda>p. steam_id p = A) allPlayers = Some a"
    and "find (\<lambda>p. steam_id p = B) allPlayers = Some b"
    and "A \<noteq> []" and "B \<noteq> []"
  shows "\<exists>r. duelStats (Some A) (Some B) allPlayers ms = Some r"
proof -
  obtain k1 k2 h where "foldl (duel_match A B) (0, 0, []) ms = (k1, k2, h)"
    by (cases "foldl (duel_match A B) (0, 0, []) ms") auto
  with assms show ?thesis
    by (simp add: duelStats_def)
qed

text \<open>
  The fallback gives 1 : 3 in the first match, A's own entry gives 2 : 0 in the second,
  the other two matches give nothing.
\<close>

theorem duelStats_reconciled_witness:
  "\<exists>r. duelStats (Some ''A'') (Some ''B'') (aggregatePlayerStats ex_duel_ms) ex_duel_ms = Some r
       \<and> p1Kills r = Fin 3 \<and> p2Kills r = Fin 3 \<and> length (history r) = 2"
proof -
  obtain a b where
    "find (\<lambda>p. steam_id p = ''A'') (aggregatePlayerStats ex_duel_ms) = Some a"
    "find (\<lambda>p. steam_id p = ''B'') (aggregatePlayerStats ex_duel_ms) = Some b"
    using ex_duel_resolved [of "''A''"] ex_duel_resolved [of "''B''"] by auto
  then obtain r where
    r: "duelStats (Some ''A'') (Some ''B'') (aggregatePlayerStats ex_duel_ms) ex_duel_ms = Some r"
    using duelStats_resolved [of "''A''" _ a "''B''" b ex_duel_ms] by auto
  have "length (history r) = size (mset (map history_score (history r)))"
    by simp
  with duelStats_reconciled [OF r]
  have "p1Kills r = Fin 3 \<and> p2Kills r = Fin 3 \<and> length (history r) = 2"
    by (simp add: ex_duel_contributions map_filter_simps ex_duel_ms_def
          duel_contribution_def participant_def norm_id_def ex_duelist_def ex_duel_def)
  with r show ?thesis by blast
qed

section \<open>Team balancer\<close>

lemma place_player_cases:
  "place_player ts (t1, t2) c = (t1 @ [c], t2) \<and> length t1 < ts
   \<or> place_player ts (t1, t2) c = (t1, t2 @ [c]) \<and> length t2 < ts
   \<or> place_player ts (t1, t2) c = (t1, t2) \<and> ts \<le> length t1 \<and> ts \<le> length t2"
  by (auto simp: place_player_def Let_def)

lemma foldl_place_player_all_placed:
  assumes "length t1 + length t2 + length cs \<le> 2 * ts"
  shows "\<exists>xs ys. foldl (place_player ts) (t1, t2) cs = (t1 @ xs, t2 @ ys)
                 \<and> mset xs + mset ys = mset cs"
  using assms
proof (induction cs arbitrary: t1 t2)
  case Nil
  then show ?case by simp
next
  case (Cons c cs)
  from Cons.prems have room: "\<not> (ts \<le> length t1 \<and> ts \<le> length t2)"
    by auto
  from place_player_cases [of ts t1 t2 c] room
  consider (one) "place_player ts (t1, t2) c = (t1 @ [c], t2)"
    | (two) "place_player ts (t1, t2) c = (t1, t2 @ [c])"
    by blast
  then show ?case
  proof cases
    case one
    from Cons.prems have "length (t1 @ [c]) + length t2 + length cs \<le> 2 * ts" by simp
    from Cons.IH [OF this] obtain xs ys where
      "foldl (place_player ts) (t1 @ [c], t2) cs = ((t1 @ [c]) @ xs, t2 @ ys)"
      "mset xs + mset ys = mset cs" by blast
    with one show ?thesis
      by (intro exI [of _ "c # xs"] exI [of _ ys]) simp
  next
    case two
    from Cons.prems have "length t1 + length (t2 @ [c]) + length cs \<le> 2 * ts" by simp
    from Cons.IH [OF this] obtain xs ys where
      "foldl (place_player ts) (t1, t2 @ [c]) cs = (t1 @ xs, (t2 @ [c]) @ ys)"
      "mset xs + mset ys = mset cs" by blast
    with two show ?thesis
      by (intro exI [of _ xs] exI [of _ "c # ys"]) simp
  qed
qed

lemma foldl_place_player_bounded:
  assumes "length t1 \<le> ts" and "length t2 \<le> ts"
    and "foldl (place_player ts) (t1, t2) cs = (u1, u2)"
  shows "length u1 \<le> ts \<and> length u2 \<le> ts"
  using assms
proof (induction cs arbitrary: t1 t2)
  case Nil
  then show ?case by simp
next
  case (Cons c cs)
  obtain v1 v2 where v: "place_player ts (t1, t2) c = (v1, v2)"
    by (cases "place_player ts (t1, t2) c") auto
  with place_player_cases [of ts t1 t2 c] Cons.prems(1,2)
  have "length v1 \<le> ts" "length v2 \<le> ts"
    by auto
  moreover from Cons.prems(3) v have "foldl (place_player ts) (v1, v2) cs = (u1, u2)"
    by simp
  ultimately show ?case
    by (rule Cons.IH)
qed

lemma find_SomeD:
  "find P xs = Some x \<Longrightarrow> P x \<and> x \<in> set xs"
  by (induction xs) (auto split: if_splits)

lemma activePlayers_ids:
  "map steam_id (activePlayers lobby pins allPlayers)
     = filter (\<lambda>i. pins i \<noteq> Some Bench \<and> find (\<lambda>p. steam_id p = i) allPlayers \<noteq> None) lobby"
proof (induction lobby)
  case Nil
  show ?case by (simp add: activePlayers_def map_filter_simps)
next
  case (Cons i lobby)
  show ?case
  proof (cases "find (\<lambda>p. steam_id p = i) allPlayers")
    case None
    with Cons.IH show ?thesis
      by (simp add: activePlayers_def map_filter_simps)
  next
    case (Some p)
    then have "steam_id p = i"
      by (auto dest: find_SomeD)
    with Some Cons.IH show ?thesis
      by (simp add: activePlayers_def map_filter_simps)
  qed
qed

lemma activePlayers_not_benched:
  assumes "p \<in> set (activePlayers lobby pins allPlayers)"
  shows "pins (steam_id p) \<noteq> Some Bench"
proof -
  from assms have "steam_id p \<in> set (map steam_id (activePlayers lobby pins allPlayers))"
    by simp
  then show ?thesis
    unfolding activePlayers_ids by simp
qed

lemma distinct_activePlayers:
  assumes "distinct lobby"
  shows "distinct (activePlayers lobby pins allPlayers)"
proof -
  from assms have "distinct (map steam_id (activePlayers lobby pins allPlayers))"
    unfolding activePlayers_ids by simp
  then show ?thesis
    by (simp add: distinct_map)
qed

lemma mset_three_way:
  assumes "\<And>p. p \<in> set xs \<Longrightarrow> pins (steam_id p) \<noteq> Some Bench"
  shows "mset (filter (\<lambda>p. pins (steam_id p) = Some Team1) xs)
         + mset (filter (\<lambda>p. pins (steam_id p) = Some Team2) xs)
         + mset (filter (\<lambda>p. pins (steam_id p) = None) xs) = mset xs"
  using assms
proof (induction xs)
  case Nil
  show ?case by simp
next
  case (Cons x xs)
  from Cons.prems [of x] have "pins (steam_id x) \<noteq> Some Bench" by simp
  then consider "pins (steam_id x) = Some Team1" | "pins (steam_id x) = Some Team2"
    | "pins (steam_id x) = None"
    by (cases "pins (steam_id x)") (auto intro: assignment.exhaust)
  then show ?case
    using Cons.IH Cons.prems by cases simp_all
qed

lemma generateTeams_pool:
  assumes "even (length (activePlayers lobby pins allPlayers))"
    and "2 \<le> length (activePlayers lobby pins allPlayers)"
  shows "\<exists>pool. mset pool = mset (filter (\<lambda>p. pins (steam_id p) = None) (activePlayers lobby pins allPlayers))
           \<and> generateTeams lobby pins allPlayers old =
               (None, Some (foldl (place_player (length (activePlayers lobby pins allPlayers) div 2))
                  (filter (\<lambda>p. pins (steam_id p) = Some Team1) (activePlayers lobby pins allPlayers),
                   filter (\<lambda>p. pins (steam_id p) = Some Team2) (activePlayers lobby pins allPlayers)) pool))"
  using assms
  by (intro exI [of _ "js_sort (\<lambda>a b. jsub (avg_rating b) (avg_rating a))
         (filter (\<lambda>p. pins (steam_id p) = None) (activePlayers lobby pins allPlayers))"])
     (simp add: generateTeams_def Let_def mset_js_sort even_iff_mod_2_eq_zero)

lemma distinct_addPlayerToLobby:
  "distinct lobby \<Longrightarrow> distinct (addPlayerToLobby lobby i)"
  by (simp add: addPlayerToLobby_def)

lemma distinct_removePlayerFromLobby:
  "distinct lobby \<Longrightarrow> distinct (removePlayerFromLobby lobby i)"
  by (simp add: removePlayerFromLobby_def)

text \<open>
  Claim C10. Whenever the active roster (not benched, resolvable) of a lobby, whose ids
  are distinct as shown above, is even and at least 2, the balancer returns two disjoint teams that together
  hold every active player exactly once. Nothing is assumed about the pins: the count of
  players pinned to one team may exceed \<open>teamSize\<close>.
\<close>

theorem generateTeams_partition:
  assumes "distinct lobby"
    and "even (length (activePlayers lobby pins allPlayers))"
    and "2 \<le> length (activePlayers lobby pins allPlayers)"
  shows "\<exists>t1 t2. generateTeams lobby pins allPlayers old = (None, Some (t1, t2))
           \<and> mset (t1 @ t2) = mset (activePlayers lobby pins allPlayers)
           \<and> distinct (t1 @ t2) \<and> set t1 \<inter> set t2 = {}"
proof -
  let ?act = "activePlayers lobby pins allPlayers"
  let ?p1 = "filter (\<lambda>p. pins (steam_id p) = Some Team1) ?act"
  let ?p2 = "filter (\<lambda>p. pins (steam_id p) = Some Team2) ?act"
  let ?un = "filter (\<lambda>p. pins (steam_id p) = None) ?act"
  from generateTeams_pool [OF assms(2,3), of old] obtain pool where
    pool: "mset pool = mset ?un"
    and g: "generateTeams lobby pins allPlayers old =
              (None, Some (foldl (place_player (length ?act div 2)) (?p1, ?p2) pool))"
    by blast
  have three: "mset ?p1 + mset ?p2 + mset ?un = mset ?act"
    by (rule mset_three_way) (rule activePlayers_not_benched)
  then have "size (mset ?p1 + mset ?p2 + mset ?un) = length ?act"
    by simp
  moreover from pool have "length pool = length ?un"
    by (rule mset_eq_length)
  ultimately have "length ?p1 + length ?p2 + length pool \<le> 2 * (length ?act div 2)"
    using assms(2) by (simp del: mset_filter)
  from foldl_place_player_all_placed [OF this] obtain xs ys where
    f: "foldl (place_player (length ?act div 2)) (?p1, ?p2) pool = (?p1 @ xs, ?p2 @ ys)"
    and xy: "mset xs + mset ys = mset pool"
    by blast
  have "mset ((?p1 @ xs) @ (?p2 @ ys)) = mset ?p1 + mset ?p2 + (mset xs + mset ys)"
    by (simp only: mset_append ac_simps)
  also have "\<dots> = mset ?p1 + mset ?p2 + mset ?un"
    by (simp only: xy pool)
  finally have m: "mset ((?p1 @ xs) @ (?p2 @ ys)) = mset ?act"
    by (simp only: three)
  have "distinct ?act"
    using assms(1) by (rule distinct_activePlayers)
  with m have d: "distinct ((?p1 @ xs) @ (?p2 @ ys))"
    by (metis mset_eq_imp_distinct_iff)
  then have "set (?p1 @ xs) \<inter> set (?p2 @ ys) = {}"
    by (simp only: distinct_append)
  with g f m d show ?thesis
    by (intro exI [of _ "?p1 @ xs"] exI [of _ "?p2 @ ys"]) simp
qed


lemma generateTeams_invalid:
  assumes "odd (length (activePlayers lobby pins allPlayers))
           \<or> length (activePlayers lobby pins allPlayers) < 2"
  shows "generateTeams lobby pins allPlayers old = (Some validation_alert, old)"
  using assms by (auto simp: generateTeams_def Let_def odd_iff_mod_2_eq_one)

lemma generateTeams_sizes:
  assumes "even (length (activePlayers lobby pins allPlayers))"
    and "2 \<le> length (activePlayers lobby pins allPlayers)"
    and "length (filter (\<lambda>p. pins (steam_id p) = Some Team1) (activePlayers lobby pins allPlayers))
           \<le> length (activePlayers lobby pins allPlayers) div 2"
    and "length (filter (\<lambda>p. pins (steam_id p) = Some Team2) (activePlayers lobby pins allPlayers))
           \<le> length (activePlayers lobby pins allPlayers) div 2"
  shows "\<exists>t1 t2. generateTeams lobby pins allPlayers old = (None, Some (t1, t2))
           \<and> length t1 = length (activePlayers lobby pins allPlayers) div 2
           \<and> length t2 = length (activePlayers lobby pins allPlayers) div 2"
proof -
  let ?act = "activePlayers lobby pins allPlayers"
  let ?p1 = "filter (\<lambda>p. pins (steam_id p) = Some Team1) ?act"
  let ?p2 = "filter (\<lambda>p. pins (steam_id p) = Some Team2) ?act"
  let ?un = "filter (\<lambda>p. pins (steam_id p) = None) ?act"
  from generateTeams_pool [OF assms(1,2), of old] obtain pool where
    pool: "mset pool = mset ?un"
    and g: "generateTeams lobby pins allPlayers old =
              (None, Some (foldl (place_player (length ?act div 2)) (?p1, ?p2) pool))"
    by blast
  have three: "mset ?p1 + mset ?p2 + mset ?un = mset ?act"
    by (rule mset_three_way) (rule activePlayers_not_benched)
  then have "size (mset ?p1 + mset ?p2 + mset ?un) = length ?act"
    by simp
  moreover from pool have "length pool = length ?un"
    by (rule mset_eq_length)
  ultimately have total: "length ?p1 + length ?p2 + length pool = 2 * (length ?act div 2)"
    using assms(1) by (simp del: mset_filter)
  then have "length ?p1 + length ?p2 + length pool \<le> 2 * (length ?act div 2)"
    by simp
  from foldl_place_player_all_placed [OF this] obtain xs ys where
    f: "foldl (place_player (length ?act div 2)) (?p1, ?p2) pool = (?p1 @ xs, ?p2 @ ys)"
    and xy: "mset xs + mset ys = mset pool"
    by blast
  from xy have "length xs + length ys = length pool"
    by (metis size_mset size_union)
  with total have sum: "length (?p1 @ xs) + length (?p2 @ ys) = 2 * (length ?act div 2)"
    by simp
  from foldl_place_player_bounded [OF assms(3,4) f]
  have "length (?p1 @ xs) \<le> length ?act div 2" "length (?p2 @ ys) \<le> length ?act div 2"
    by simp_all
  with sum have "length (?p1 @ xs) = length ?act div 2" "length (?p2 @ ys) = length ?act div 2"
    by linarith+
  with g f show ?thesis
    by (intro exI [of _ "?p1 @ xs"] exI [of _ "?p2 @ ys"]) simp
qed

text \<open>
  Claim C5. When the active roster is odd or smaller than 2, the balancer shows the
  validation alert and leaves the generated teams as they were. When the active roster has
  8 players and none of them is pinned, it returns two teams of 4 players each.
\<close>

theorem generateTeams_validation:
  fixes lobby pins allPlayers
  defines "act \<equiv> activePlayers lobby pins allPlayers"
  shows "(odd (length act) \<or> length act < 2 \<longrightarrow>
            generateTeams lobby pins allPlayers old = (Some validation_alert, old))
         \<and> (length act = 8 \<and> (\<forall>p \<in> set act. pins (steam_id p) = None) \<longrightarrow>
              (\<exists>t1 t2. generateTeams lobby pins allPlayers old = (None, Some (t1, t2))
                 \<and> length t1 = 4 \<and> length t2 = 4))"
proof (intro conjI impI)
  assume "odd (length act) \<or> length act < 2"
  then show "generateTeams lobby pins allPlayers old = (Some validation_alert, old)"
    unfolding act_def by (rule generateTeams_invalid)
next
  assume a: "length act = 8 \<and> (\<forall>p \<in> set act. pins (steam_id p) = None)"
  then have "filter (\<lambda>p. pins (steam_id p) = Some Team1) act = []"
    "filter (\<lambda>p. pins (steam_id p) = Some Team2) act = []"
    by (simp_all add: filter_empty_conv)
  with a generateTeams_sizes [of lobby pins allPlayers old]
  show "\<exists>t1 t2. generateTeams lobby pins allPlayers old = (None, Some (t1, t2))
          \<and> length t1 = 4 \<and> length t2 = 4"
    unfolding act_def by simp
qed









text \<open>
  The order in which \<open>balance_spec\<close> processes the unpinned members: descending in
  rating, and members of equal rating in their original order.
\<close>

lemma pool_descending:
  "sorted_wrt (\<lambda>a b. rating_of b \<le> rating_of a) (sort_key (\<lambda>p. - rating_of p) xs)"
proof -
  have "sorted (map (\<lambda>p. - rating_of p) (sort_key (\<lambda>p. - rating_of p) xs))"
    by (rule sorted_sort_key)
  then show ?thesis
    by (simp add: sorted_map)
qed

lemma pool_stable:
  "filter (\<lambda>p. rating_of p = r) (sort_key (\<lambda>p. - rating_of p) xs)
     = filter (\<lambda>p. rating_of p = r) xs"
  using sort_key_stable [of "\<lambda>p. - rating_of p" "- r" xs] by simp



lemma ex_active:
  "activePlayers (ex_lobby 4) [''11'' \<mapsto> Team1, ''12'' \<mapsto> Team1, ''13'' \<mapsto> Team1] ex_all = take 4 ex_all"
  "activePlayers (ex_lobby 6) [''16'' \<mapsto> Team1] ex_all = take 6 ex_all"
  "activePlayers (ex_lobby 9) [''19'' \<mapsto> Bench] ex_all = take 8 ex_all"
  "activePlayers (ex_lobby 9) [''18'' \<mapsto> Bench, ''19'' \<mapsto> Bench] ex_all = take 7 ex_all"
  by (simp_all add: activePlayers_def map_filter_simps ex_lobby_def ex_all_def ex_member_def)

lemma length_ex_all [simp]: "length ex_all = 9"
  by (simp add: ex_all_def)

lemma ex_teams_pinned:
  "generateTeams (ex_lobby 4) [''11'' \<mapsto> Team1, ''12'' \<mapsto> Team1, ''13'' \<mapsto> Team1] ex_all None
     = (None, Some (take 3 ex_all, [ex_all ! 3]))"
  unfolding generateTeams_def ex_active Let_def
  by (simp add: ex_all_def ex_member_def js_sort_def place_player_def)

text \<open>Four active players, three of them pinned to team 1 (\<open>teamSize\<close> is 2).\<close>

theorem generateTeams_partition_witness:
  "distinct (ex_lobby 4)
   \<and> generateTeams (ex_lobby 4) [''11'' \<mapsto> Team1, ''12'' \<mapsto> Team1, ''13'' \<mapsto> Team1] ex_all None
       = (None, Some (take 3 ex_all, [ex_all ! 3]))
   \<and> mset (take 3 ex_all @ [ex_all ! 3]) = mset (take 4 ex_all)
   \<and> distinct (take 3 ex_all @ [ex_all ! 3])
   \<and> set (take 3 ex_all) \<inter> set [ex_all ! 3] = {}"
proof -
  have d: "distinct (ex_lobby 4)"
    by (simp add: ex_lobby_def)
  from generateTeams_partition [OF d, of "[''11'' \<mapsto> Team1, ''12'' \<mapsto> Team1, ''13'' \<mapsto> Team1]" ex_all None]
  show ?thesis
    unfolding ex_active ex_teams_pinned using d by simp
qed


text \<open>
  Nine players in the lobby: with two benched the seven active ones are refused and the
  earlier teams stay; with one benched the eight active ones are split 4 and 4.
\<close>

theorem generateTeams_validation_witness:
  "generateTeams (ex_lobby 9) [''18'' \<mapsto> Bench, ''19'' \<mapsto> Bench] ex_all
       (Some ([ex_all ! 0], [ex_all ! 1]))
     = (Some validation_alert, Some ([ex_all ! 0], [ex_all ! 1]))
   \<and> (\<exists>t1 t2. generateTeams (ex_lobby 9) [''19'' \<mapsto> Bench] ex_all None = (None, Some (t1, t2))
          \<and> length t1 = 4 \<and> length t2 = 4)"
proof -
  have "\<forall>p \<in> set (take 8 ex_all). [''19'' \<mapsto> Bench] (steam_id p) = None"
    by (simp add: ex_all_def ex_member_def)
  with generateTeams_validation [of "ex_lobby 9" "[''18'' \<mapsto> Bench, ''19'' \<mapsto> Bench]" ex_all
         "Some ([ex_all ! 0], [ex_all ! 1])"]
    generateTeams_validation [of "ex_lobby 9" "[''19'' \<mapsto> Bench]" ex_all None]
  show ?thesis
    unfolding ex_active by simp
qed



end
